theory Spec2Isabelle
  imports Complex_Main "HOL-Library.Char_ord" "HOL-Library.List_Lexorder"
begin

section \<open>FarmCom: the marketplace store and its request handlers\<close>

text \<open>
  The handlers of \<^verbatim>\<open>FarmCom/app.py\<close> talk to a MySQL database through hand-written
  statements. The two tables they touch are modelled as lists of rows; every statement
  of the source is one function on the database value. Python integers are \<open>int\<close>.
  Prices and amounts are exact rationals: the source multiplies \<open>quantity * price\<close>
  with whatever numeric type the driver returns, and the model keeps that product exact.
  The database is assumed to be reachable and to store what a statement writes.
\<close>

record marketplace_item =
  iid :: nat
  seller_id :: nat
  item_name :: string
  description :: string
  category :: string
  price :: rat
  quantity_available :: int
  unit_col :: string
  location :: string
  image_url :: "string option"

record purchase_transaction =
  t_item_id :: nat
  t_buyer_id :: nat
  t_seller_id :: nat
  t_quantity :: int
  t_total_amount :: rat
  t_delivery_address :: "string option"

record db =
  marketplace_items :: "marketplace_item list"
  purchase_transactions :: "purchase_transaction list"

text \<open>What a handler answers. The flash texts and JSON messages are kept as constructors.\<close>

datatype response =
    LoginRequired           \<comment> \<open>no \<open>user_id\<close> in the session\<close>
  | PurchaseSuccessful      \<comment> \<open>'Purchase successful!' / \<open>success: True\<close>\<close>
  | InsufficientQuantity    \<comment> \<open>'Insufficient quantity available'\<close>
  | PurchaseFailed          \<comment> \<open>\<open>process_purchase\<close>: exception caught, \<open>success: False\<close>\<close>
  | ServerError             \<comment> \<open>an exception no handler catches\<close>
  | ListingSaved            \<comment> \<open>item listed / listing updated\<close>
  | ListingError            \<comment> \<open>exception caught, 'Error listing item' / 'Error updating listing'\<close>
  | CategoryTooLong
  | ListingNotFound         \<comment> \<open>not found, or the listing is someone else's\<close>
  | FormPage                \<comment> \<open>GET: the form is rendered\<close>

datatype http_method = GET | POST

subsection \<open>The SQL statements\<close>

text \<open>\<^verbatim>\<open>SELECT ... FROM marketplace_items WHERE id = %s\<close>, then \<^verbatim>\<open>fetchone()\<close>.\<close>

definition select_item :: "nat \<Rightarrow> db \<Rightarrow> marketplace_item option" where
  "select_item item_id d = find (\<lambda>r. iid r = item_id) (marketplace_items d)"

text \<open>\<^verbatim>\<open>INSERT INTO purchase_transactions (...) VALUES (...)\<close>.\<close>

definition insert_purchase :: "purchase_transaction \<Rightarrow> db \<Rightarrow> db" where
  "insert_purchase t d = d\<lparr>purchase_transactions := purchase_transactions d @ [t]\<rparr>"

text \<open>\<^verbatim>\<open>UPDATE marketplace_items SET quantity_available = quantity_available - %s WHERE id = %s\<close>.\<close>

definition decrement_quantity :: "int \<Rightarrow> nat \<Rightarrow> db \<Rightarrow> db" where
  "decrement_quantity quantity item_id d =
     d\<lparr>marketplace_items :=
         map (\<lambda>r. if iid r = item_id
                  then r\<lparr>quantity_available := quantity_available r - quantity\<rparr> else r)
             (marketplace_items d)\<rparr>"

text \<open>The next value of the table's auto-increment key.\<close>

definition next_id :: "db \<Rightarrow> nat" where
  "next_id d = Suc (fold max (map iid (marketplace_items d)) 0)"

text \<open>\<^verbatim>\<open>INSERT INTO marketplace_items (seller_id, item_name, ..., image_url) VALUES (...)\<close>.\<close>

definition insert_item ::
  "nat \<Rightarrow> string \<Rightarrow> string \<Rightarrow> string \<Rightarrow> rat \<Rightarrow> int \<Rightarrow> string \<Rightarrow> string \<Rightarrow> string option
     \<Rightarrow> db \<Rightarrow> db" where
  "insert_item seller name descr cat pr quantity un loc img d =
     d\<lparr>marketplace_items := marketplace_items d @
         [\<lparr>iid = next_id d, seller_id = seller, item_name = name, description = descr,
           category = cat, price = pr, quantity_available = quantity, unit_col = un,
           location = loc, image_url = img\<rparr>]\<rparr>"

text \<open>\<^verbatim>\<open>SELECT * FROM marketplace_items WHERE id = %s AND seller_id = %s\<close>.\<close>

definition select_own_listing :: "nat \<Rightarrow> nat \<Rightarrow> db \<Rightarrow> marketplace_item option" where
  "select_own_listing listing_id user_id d =
     find (\<lambda>r. iid r = listing_id \<and> seller_id r = user_id) (marketplace_items d)"

text \<open>\<^verbatim>\<open>UPDATE marketplace_items SET item_name = %s, ..., quantity_available = %s, ...
  WHERE id = %s AND seller_id = %s\<close>.\<close>

definition update_listing ::
  "string \<Rightarrow> string \<Rightarrow> string \<Rightarrow> rat \<Rightarrow> int \<Rightarrow> string \<Rightarrow> string \<Rightarrow> string option
     \<Rightarrow> nat \<Rightarrow> nat \<Rightarrow> db \<Rightarrow> db" where
  "update_listing name descr cat pr quantity un loc img listing_id user_id d =
     d\<lparr>marketplace_items :=
         map (\<lambda>r. if iid r = listing_id \<and> seller_id r = user_id
                  then r\<lparr>item_name := name, description := descr, category := cat,
                         price := pr, quantity_available := quantity, unit_col := un,
                         location := loc, image_url := img\<rparr>
                  else r)
             (marketplace_items d)\<rparr>"

subsection \<open>The purchase handlers\<close>

text \<open>
  \<open>purchase_item\<close> (route \<^verbatim>\<open>/buy/<int:item_id>\<close>). The session is the logged-in user's id, if
  any; the form's quantity is \<open>None\<close> when \<^verbatim>\<open>int(request.form['quantity'])\<close> raises, which this
  handler does not catch.
\<close>

definition purchase_item :: "nat option \<Rightarrow> int option \<Rightarrow> nat \<Rightarrow> db \<Rightarrow> response \<times> db" where
  "purchase_item session form_quantity item_id d =
     (case session of
        None \<Rightarrow> (LoginRequired, d)
      | Some user_id \<Rightarrow>
          (case form_quantity of
             None \<Rightarrow> (ServerError, d)
           | Some quantity \<Rightarrow>
               (case select_item item_id d of
                  None \<Rightarrow> (InsufficientQuantity, d)
                | Some item \<Rightarrow>
                    if quantity_available item \<ge> quantity then
                      let total_amount = of_int quantity * price item;
                          d1 = insert_purchase
                                 \<lparr>t_item_id = item_id, t_buyer_id = user_id,
                                  t_seller_id = seller_id item, t_quantity = quantity,
                                  t_total_amount = total_amount,
                                  t_delivery_address = None\<rparr> d;
                          d2 = decrement_quantity quantity item_id d1
                      in (PurchaseSuccessful, d2)
                    else (InsufficientQuantity, d))))"

text \<open>
  \<open>process_purchase\<close> (route \<^verbatim>\<open>POST /buy_items\<close>). The product id comes from the form; it is
  \<open>None\<close> when the field names no row. A quantity that does not parse raises inside the
  \<^verbatim>\<open>try\<close> and is answered with 'Purchase failed'.
\<close>

definition process_purchase ::
  "nat option \<Rightarrow> nat option \<Rightarrow> int option \<Rightarrow> string option \<Rightarrow> db \<Rightarrow> response \<times> db" where
  "process_purchase session product_id form_quantity delivery_address d =
     (case session of
        None \<Rightarrow> (LoginRequired, d)
      | Some user_id \<Rightarrow>
          (case form_quantity of
             None \<Rightarrow> (PurchaseFailed, d)
           | Some quantity \<Rightarrow>
               (case (case product_id of None \<Rightarrow> None | Some p \<Rightarrow> select_item p d) of
                  None \<Rightarrow> (InsufficientQuantity, d)
                | Some item \<Rightarrow>
                    if quantity_available item \<ge> quantity then
                      let total_amount = of_int quantity * price item;
                          d1 = insert_purchase
                                 \<lparr>t_item_id = iid item, t_buyer_id = user_id,
                                  t_seller_id = seller_id item, t_quantity = quantity,
                                  t_total_amount = total_amount,
                                  t_delivery_address = delivery_address\<rparr> d;
                          d2 = decrement_quantity quantity (iid item) d1
                      in (PurchaseSuccessful, d2)
                    else (InsufficientQuantity, d))))"

subsection \<open>The listing handlers\<close>

text \<open>
  The submitted form. \<open>f_price\<close> and \<open>f_quantity\<close> are \<open>None\<close> when \<^verbatim>\<open>float(...)\<close> or
  \<^verbatim>\<open>int(...)\<close> raises. \<open>f_image\<close> is the stored name of an uploaded image file with an
  allowed extension, if there is one.
\<close>

record listing_form =
  f_item_name :: string
  f_description :: string
  f_category :: string
  f_price :: "rat option"
  f_quantity :: "int option"
  f_unit :: string
  f_location :: string
  f_image :: "string option"

definition category_mapping :: "string \<rightharpoonup> string" where
  "category_mapping = map_of
     [(''Grains'', ''Grain''), (''Vegetables'', ''Veg''), (''Fruits'', ''Fruit''),
      (''Dairy'', ''Dairy''), (''Spices'', ''Spice''), (''Seeds'', ''Seed'')]"

text \<open>\<open>sell_item\<close> (route \<^verbatim>\<open>/sell_item\<close>): listing creation.\<close>

definition sell_item :: "nat option \<Rightarrow> http_method \<Rightarrow> listing_form \<Rightarrow> db \<Rightarrow> response \<times> db" where
  "sell_item session method form d =
     (case session of
        None \<Rightarrow> (LoginRequired, d)
      | Some user_id \<Rightarrow>
          (case method of
             GET \<Rightarrow> (FormPage, d)
           | POST \<Rightarrow>
               (case f_price form of
                  None \<Rightarrow> (ListingError, d)
                | Some pr \<Rightarrow>
                    (case f_quantity form of
                       None \<Rightarrow> (ListingError, d)
                     | Some quantity \<Rightarrow>
                         if length (f_category form) > 10 then (CategoryTooLong, d)
                         else
                           let cat = (case category_mapping (f_category form) of
                                        Some c \<Rightarrow> c | None \<Rightarrow> f_category form)
                           in (ListingSaved,
                               insert_item user_id (f_item_name form) (f_description form) cat
                                 pr quantity (f_unit form) (f_location form) (f_image form) d)))))"

text \<open>\<open>add_item\<close> (route \<^verbatim>\<open>/marketplace/add\<close>): the older listing creation, without a \<^verbatim>\<open>try\<close>.\<close>

definition add_item :: "nat option \<Rightarrow> http_method \<Rightarrow> listing_form \<Rightarrow> db \<Rightarrow> response \<times> db" where
  "add_item session method form d =
     (case session of
        None \<Rightarrow> (LoginRequired, d)
      | Some user_id \<Rightarrow>
          (case method of
             GET \<Rightarrow> (FormPage, d)
           | POST \<Rightarrow>
               (case f_price form of
                  None \<Rightarrow> (ServerError, d)
                | Some pr \<Rightarrow>
                    (case f_quantity form of
                       None \<Rightarrow> (ServerError, d)
                     | Some quantity \<Rightarrow>
                         (ListingSaved,
                          insert_item user_id (f_item_name form) (f_description form)
                            (f_category form) pr quantity (f_unit form) (f_location form)
                            (f_image form) d)))))"

text \<open>\<open>edit_listing\<close> (route \<^verbatim>\<open>/edit_listing/<int:listing_id>\<close>): owner-only edit.\<close>

definition edit_listing ::
  "nat option \<Rightarrow> http_method \<Rightarrow> nat \<Rightarrow> listing_form \<Rightarrow> db \<Rightarrow> response \<times> db" where
  "edit_listing session method listing_id form d =
     (case session of
        None \<Rightarrow> (LoginRequired, d)
      | Some user_id \<Rightarrow>
          (case select_own_listing listing_id user_id d of
             None \<Rightarrow> (ListingNotFound, d)
           | Some listing \<Rightarrow>
               (case method of
                  GET \<Rightarrow> (FormPage, d)
                | POST \<Rightarrow>
                    (case f_price form of
                       None \<Rightarrow> (ListingError, d)
                     | Some pr \<Rightarrow>
                         (case f_quantity form of
                            None \<Rightarrow> (ListingError, d)
                          | Some quantity \<Rightarrow>
                              let img = (case f_image form of
                                           Some f \<Rightarrow> Some f | None \<Rightarrow> image_url listing)
                              in (ListingSaved,
                                  update_listing (f_item_name form) (f_description form)
                                    (f_category form) pr quantity (f_unit form)
                                    (f_location form) img listing_id user_id d))))))"

text \<open>The invariant of the items table: no row has a negative stock.\<close>

definition inventory_ok :: "db \<Rightarrow> bool" where
  "inventory_ok d = list_all (\<lambda>r. 0 \<le> quantity_available r) (marketplace_items d)"

text \<open>The example of the specification: one item, 5 in stock, at price 10.\<close>

definition example_item :: marketplace_item where
  "example_item = \<lparr>iid = 1, seller_id = 7, item_name = ''Rice'', description = ''Basmati'',
     category = ''Grain'', price = 10, quantity_available = 5, unit_col = ''kg'',
     location = ''Pune'', image_url = None\<rparr>"

definition example_db :: db where
  "example_db = \<lparr>marketplace_items = [example_item], purchase_transactions = []\<rparr>"

definition empty_db :: db where
  "empty_db = \<lparr>marketplace_items = [], purchase_transactions = []\<rparr>"

definition example_form :: "int \<Rightarrow> listing_form" where
  "example_form q = \<lparr>f_item_name = ''Rice'', f_description = ''Basmati'',
     f_category = ''Grains'', f_price = Some 10, f_quantity = Some q, f_unit = ''kg'',
     f_location = ''Pune'', f_image = None\<rparr>"

text \<open>
  \<open>id\<close> is the primary key of \<^verbatim>\<open>marketplace_items\<close>: no two rows share it. Every handler
  keeps this (the \<open>_preserves\<close> lemmas below).
\<close>

definition keys_unique :: "db \<Rightarrow> bool" where
  "keys_unique d = distinct (map iid (marketplace_items d))"

text \<open>The quantity submitted with a listing form, where it parses, is not negative.\<close>

definition form_quantity_ok :: "listing_form \<Rightarrow> bool" where
  "form_quantity_ok form = (case f_quantity form of None \<Rightarrow> True | Some q \<Rightarrow> 0 \<le> q)"

text \<open>The store after one listing was created with the quantity field \<open>-5\<close>.\<close>

definition negative_stock_db :: db where
  "negative_stock_db = snd (sell_item (Some 7) POST (example_form (- 5)) empty_db)"

subsection \<open>Purchases served at the same time\<close>

text \<open>
  A purchase handler issues its statements one after the other on its own connection:
  first the \<^verbatim>\<open>SELECT\<close> with the check \<^verbatim>\<open>item and item[2] >= quantity\<close> in Python, then, with
  the row it has read, the \<^verbatim>\<open>INSERT\<close> and the \<^verbatim>\<open>UPDATE\<close>. No statement takes a lock, and the
  \<^verbatim>\<open>UPDATE\<close> has no condition on the stock.
\<close>

definition purchase_check :: "nat \<Rightarrow> int \<Rightarrow> db \<Rightarrow> marketplace_item option" where
  "purchase_check item_id quantity d =
     (case select_item item_id d of
        None \<Rightarrow> None
      | Some item \<Rightarrow> if quantity_available item \<ge> quantity then Some item else None)"

definition purchase_write ::
  "nat \<Rightarrow> nat \<Rightarrow> int \<Rightarrow> string option \<Rightarrow> marketplace_item \<Rightarrow> db \<Rightarrow> db" where
  "purchase_write user_id item_id quantity delivery_address item d =
     (let total_amount = of_int quantity * price item;
          d1 = insert_purchase
                 \<lparr>t_item_id = item_id, t_buyer_id = user_id,
                  t_seller_id = seller_id item, t_quantity = quantity,
                  t_total_amount = total_amount,
                  t_delivery_address = delivery_address\<rparr> d
      in decrement_quantity quantity item_id d1)"

text \<open>
  Requests served at the same time. Each request of a logged-in buyer is in one of three
  states: it has not read yet, it has read a row that passed the check, or it has
  answered. A schedule names, step by step, the request whose next statements run.
\<close>

record purchase_request =
  r_buyer :: nat
  r_item :: nat
  r_quantity :: int

datatype progress = Waiting | Checked marketplace_item | Answered response

fun advance :: "purchase_request \<Rightarrow> progress \<Rightarrow> db \<Rightarrow> progress \<times> db" where
  "advance r Waiting d =
     (case purchase_check (r_item r) (r_quantity r) d of
        None \<Rightarrow> (Answered InsufficientQuantity, d)
      | Some item \<Rightarrow> (Checked item, d))"
| "advance r (Checked item) d =
     (Answered PurchaseSuccessful,
      purchase_write (r_buyer r) (r_item r) (r_quantity r) None item d)"
| "advance r (Answered a) d = (Answered a, d)"

fun run ::
  "nat list \<Rightarrow> (purchase_request \<times> progress) list \<Rightarrow> db
     \<Rightarrow> (purchase_request \<times> progress) list \<times> db" where
  "run [] rs d = (rs, d)"
| "run (i # schedule) rs d =
     (if i < length rs then
        (case advance (fst (rs ! i)) (snd (rs ! i)) d of
           (p, d') \<Rightarrow> run schedule (rs[i := (fst (rs ! i), p)]) d')
      else run schedule rs d)"

text \<open>Two buyers who each ask for all 5 units of the example item.\<close>

definition two_requests :: "(purchase_request \<times> progress) list" where
  "two_requests =
     [(\<lparr>r_buyer = 2, r_item = 1, r_quantity = 5\<rparr>, Waiting),
      (\<lparr>r_buyer = 3, r_item = 1, r_quantity = 5\<rparr>, Waiting)]"

section \<open>Crop yield prediction: tables, encoders and the preprocessor\<close>

text \<open>
  The yield-prediction code works on pandas tables with scikit-learn encoders and models.
  A table is its list of column names and its list of rows; a row gives a cell for every
  column name. Python floats are modelled as exact reals, and the missing value \<open>NaN\<close> is a
  cell of its own. The library calls are modelled by what they return on these tables;
  the exceptions they raise are values of \<open>py_error\<close>.
\<close>

datatype py_error = KeyError | ValueError | TypeError | IndexError | FileNotFoundError

datatype cell = Num real | Str string | NaN

record frame =
  columns :: "string list"
  rows :: "(string \<Rightarrow> cell) list"

text \<open>\<^verbatim>\<open>data[col]\<close>: the cells of a column; \<^verbatim>\<open>KeyError\<close> when the table has no such column.\<close>

definition column :: "string \<Rightarrow> frame \<Rightarrow> py_error + cell list" where
  "column col data =
     (if col \<in> set (columns data) then Inr (map (\<lambda>r. r col) (rows data)) else Inl KeyError)"

text \<open>\<^verbatim>\<open>data[col] = values\<close>, for one value per row: a new column goes last.\<close>

definition set_column :: "string \<Rightarrow> cell list \<Rightarrow> frame \<Rightarrow> frame" where
  "set_column col values data =
     data\<lparr>columns := (if col \<in> set (columns data) then columns data else columns data @ [col]),
          rows := map (\<lambda>(r, v). r(col := v)) (zip (rows data) values)\<rparr>"

text \<open>\<^verbatim>\<open>data[col] = 0\<close>: the scalar goes into every row.\<close>

definition set_column_scalar :: "string \<Rightarrow> cell \<Rightarrow> frame \<Rightarrow> frame" where
  "set_column_scalar col v data =
     set_column col (replicate (length (rows data)) v) data"

fun label_text :: "cell \<Rightarrow> string option" where
  "label_text (Str s) = Some s"
| "label_text (Num x) = None"
| "label_text NaN = None"

fun number :: "cell \<Rightarrow> real option" where
  "number (Num x) = Some x"
| "number (Str s) = None"
| "number NaN = None"

fun is_text :: "cell \<Rightarrow> bool" where
  "is_text (Str s) = True"
| "is_text (Num x) = False"
| "is_text NaN = False"

subsection \<open>scikit-learn's LabelEncoder\<close>

text \<open>
  A label encoder holds \<open>classes\<close>, the sorted distinct values it was fitted on, and has none
  before \<^verbatim>\<open>fit\<close>. \<^verbatim>\<open>fit\<close> takes a column of strings or a column of numbers, sorts its
  distinct values (strings as Python orders them) and puts a missing value, if the column
  has one, last as a class of its own; a column that mixes strings and numbers raises
  \<^verbatim>\<open>TypeError\<close>. \<^verbatim>\<open>transform\<close> gives each value its position in \<open>classes\<close> and raises
  \<^verbatim>\<open>ValueError\<close> when the encoder is not fitted (\<^verbatim>\<open>NotFittedError\<close> is a \<^verbatim>\<open>ValueError\<close>) or when
  some value is not one of the classes.
\<close>

record label_encoder =
  classes :: "cell list option"

definition LabelEncoder :: label_encoder where
  "LabelEncoder = \<lparr>classes = None\<rparr>"

fun index_of :: "'a list \<Rightarrow> 'a \<Rightarrow> nat" where
  "index_of [] x = 0"
| "index_of (y # ys) x = (if x = y then 0 else Suc (index_of ys x))"

fun is_missing :: "cell \<Rightarrow> bool" where
  "is_missing NaN = True"
| "is_missing (Str s) = False"
| "is_missing (Num x) = False"

definition fit :: "label_encoder \<Rightarrow> cell list \<Rightarrow> py_error + label_encoder" where
  "fit enc y =
     (let texts = List.map_filter label_text y;
          nums = List.map_filter number y;
          missing = (if list_ex is_missing y then [NaN] else [])
      in if texts \<noteq> [] \<and> nums \<noteq> [] then Inl TypeError
         else Inr (enc\<lparr>classes := Some (map Str (sort (remdups texts)) @
                                        map Num (sort (remdups nums)) @ missing)\<rparr>))"

definition transform :: "label_encoder \<Rightarrow> cell list \<Rightarrow> py_error + int list" where
  "transform enc y =
     (case classes enc of
        None \<Rightarrow> Inl ValueError
      | Some cs \<Rightarrow>
          if list_all (\<lambda>c. c \<in> set cs) y
          then Inr (map (\<lambda>c. int (index_of cs c)) y)
          else Inl ValueError)"

definition fit_transform ::
  "label_encoder \<Rightarrow> cell list \<Rightarrow> py_error + (int list \<times> label_encoder)" where
  "fit_transform enc y =
     (case fit enc y of
        Inl e \<Rightarrow> Inl e
      | Inr enc' \<Rightarrow>
          (case transform enc' y of
             Inl e \<Rightarrow> Inl e
           | Inr codes \<Rightarrow> Inr (codes, enc')))"

text \<open>A label is seen when it is one of the classes the encoder was fitted on.\<close>

definition seen :: "label_encoder \<Rightarrow> string \<Rightarrow> bool" where
  "seen enc l = (case classes enc of None \<Rightarrow> False | Some cs \<Rightarrow> Str l \<in> set cs)"

subsection \<open>\<open>DataPreprocessor\<close>\<close>

record data_preprocessor =
  crop_encoder :: label_encoder
  state_encoder :: label_encoder
  season_encoder :: label_encoder
  is_fitted :: bool

definition DataPreprocessor :: data_preprocessor where
  "DataPreprocessor = \<lparr>crop_encoder = LabelEncoder, state_encoder = LabelEncoder,
     season_encoder = LabelEncoder, is_fitted = False\<rparr>"

text \<open>
  \<^verbatim>\<open>dropna(subset=...)\<close>: \<^verbatim>\<open>KeyError\<close> when a column of the subset is not in the table;
  otherwise the rows with no missing value in those columns.
\<close>

definition dropna :: "string list \<Rightarrow> frame \<Rightarrow> py_error + frame" where
  "dropna cols data =
     (if set cols \<subseteq> set (columns data)
      then Inr (data\<lparr>rows := filter (\<lambda>r. list_all (\<lambda>c. r c \<noteq> NaN) cols) (rows data)\<rparr>)
      else Inl KeyError)"

text \<open>
  The numbers of a column, missing values skipped, as \<^verbatim>\<open>median\<close> and \<^verbatim>\<open>quantile\<close> read
  it; a column that holds text is not numeric and raises \<^verbatim>\<open>TypeError\<close>.
\<close>

definition numbers :: "cell list \<Rightarrow> py_error + real list" where
  "numbers cs = (if list_ex is_text cs then Inl TypeError else Inr (List.map_filter number cs))"

text \<open>\<^verbatim>\<open>Series.median()\<close>; \<open>None\<close> is the \<open>NaN\<close> of a column without numbers.\<close>

definition median :: "real list \<Rightarrow> real option" where
  "median xs =
     (if xs = [] then None
      else let s = sort xs; n = length s
           in Some (if even n then (s ! (n div 2 - 1) + s ! (n div 2)) / 2 else s ! (n div 2)))"

text \<open>
  Linear interpolation between the two order statistics around position \<open>q * (n - 1)\<close> of
  a sorted list: the default method of \<^verbatim>\<open>Series.quantile\<close> and of \<^verbatim>\<open>numpy.percentile\<close>.
\<close>

definition linear_quantile :: "real list \<Rightarrow> real \<Rightarrow> real" where
  "linear_quantile s q =
     (let n = length s;
          pos = q * real (n - 1);
          j = nat \<lfloor>pos\<rfloor>;
          g = pos - real j
      in if j + 1 < n then s ! j + g * (s ! (j + 1) - s ! j) else s ! j)"

text \<open>\<^verbatim>\<open>Series.quantile(q)\<close>; \<open>None\<close> is the \<open>NaN\<close> of a column without numbers.\<close>

definition quantile :: "real list \<Rightarrow> real \<Rightarrow> real option" where
  "quantile xs q = (if xs = [] then None else Some (linear_quantile (sort xs) q))"

text \<open>\<^verbatim>\<open>data[col].fillna(value, inplace=True)\<close>.\<close>

definition fillna :: "string \<Rightarrow> cell \<Rightarrow> frame \<Rightarrow> frame" where
  "fillna col v data =
     data\<lparr>rows := map (\<lambda>r. if r col = NaN then r(col := v) else r) (rows data)\<rparr>"

text \<open>
  \<^verbatim>\<open>if col in cleaned_data.columns: cleaned_data[col].fillna(cleaned_data[col].median(),
  inplace=True)\<close>.
\<close>

definition fill_median :: "string \<Rightarrow> frame \<Rightarrow> py_error + frame" where
  "fill_median col data =
     (if col \<in> set (columns data) then
        (case numbers (map (\<lambda>r. r col) (rows data)) of
           Inl e \<Rightarrow> Inl e
         | Inr xs \<Rightarrow>
             Inr (fillna col (case median xs of None \<Rightarrow> NaN | Some m \<Rightarrow> Num m) data))
      else Inr data)"

text \<open>
  The bounds \<open>Q1 - 1.5 * IQR\<close> and \<open>Q3 + 1.5 * IQR\<close> of a column; \<open>None\<close> when the
  quartiles are \<open>NaN\<close>.
\<close>

definition iqr_bounds :: "real list \<Rightarrow> (real \<times> real) option" where
  "iqr_bounds xs =
     (case quantile xs 0.25 of
        None \<Rightarrow> None
      | Some Q1 \<Rightarrow>
          (case quantile xs 0.75 of
             None \<Rightarrow> None
           | Some Q3 \<Rightarrow>
               let IQR = Q3 - Q1;
                   lower_bound = Q1 - 1.5 * IQR;
                   upper_bound = Q3 + 1.5 * IQR
               in Some (lower_bound, upper_bound)))"

text \<open>
  \<^verbatim>\<open>(data[col] >= lower_bound) & (data[col] <= upper_bound)\<close> on one cell: a comparison with
  \<open>NaN\<close> on either side is false.
\<close>

definition within_bounds :: "(real \<times> real) option \<Rightarrow> cell \<Rightarrow> bool" where
  "within_bounds bounds c =
     (case bounds of
        None \<Rightarrow> False
      | Some (lower_bound, upper_bound) \<Rightarrow>
          (case number c of None \<Rightarrow> False | Some x \<Rightarrow> lower_bound \<le> x \<and> x \<le> upper_bound))"

text \<open>The body of the outlier loop of \<open>clean_data\<close>, for one column that the table has.\<close>

definition iqr_filter :: "string \<Rightarrow> frame \<Rightarrow> py_error + frame" where
  "iqr_filter col data =
     (case numbers (map (\<lambda>r. r col) (rows data)) of
        Inl e \<Rightarrow> Inl e
      | Inr xs \<Rightarrow>
          Inr (data\<lparr>rows := filter (\<lambda>r. within_bounds (iqr_bounds xs) (r col)) (rows data)\<rparr>))"

text \<open>\<^verbatim>\<open>for col in numerical_cols: if col in cleaned_data.columns: ...\<close>.\<close>

fun remove_outliers :: "string list \<Rightarrow> frame \<Rightarrow> py_error + frame" where
  "remove_outliers [] data = Inr data"
| "remove_outliers (col # cols) data =
     (if col \<in> set (columns data) then
        (case iqr_filter col data of
           Inl e \<Rightarrow> Inl e
         | Inr data' \<Rightarrow> remove_outliers cols data')
      else remove_outliers cols data)"

definition critical_columns :: "string list" where
  "critical_columns = [''Crop'', ''State'', ''Area'', ''Production'', ''Yield'']"

definition numerical_cols :: "string list" where
  "numerical_cols =
     [''Area'', ''Production'', ''Annual_Rainfall'', ''Fertilizer'', ''Pesticide'', ''Yield'']"

text \<open>
  \<open>clean_data\<close>. The argument is \<^verbatim>\<open>self.data\<close>, \<open>None\<close> when no data was loaded; the result is
  the value returned (also kept in \<^verbatim>\<open>self.cleaned_data\<close>), or the exception raised.
\<close>

definition clean_data :: "frame option \<Rightarrow> py_error + frame option" where
  "clean_data self_data =
     (case self_data of
        None \<Rightarrow> Inr None
      | Some data \<Rightarrow>
          (case dropna critical_columns data of
             Inl e \<Rightarrow> Inl e
           | Inr d1 \<Rightarrow>
          (case fill_median ''Annual_Rainfall'' d1 of
             Inl e \<Rightarrow> Inl e
           | Inr d2 \<Rightarrow>
          (case fill_median ''Fertilizer'' d2 of
             Inl e \<Rightarrow> Inl e
           | Inr d3 \<Rightarrow>
          (case fill_median ''Pesticide'' d3 of
             Inl e \<Rightarrow> Inl e
           | Inr d4 \<Rightarrow>
               let d5 = (if ''Season'' \<in> set (columns d4)
                         then fillna ''Season'' (Str ''Unknown'') d4 else d4)
               in (case remove_outliers numerical_cols d5 of
                     Inl e \<Rightarrow> Inl e
                   | Inr cleaned_data \<Rightarrow> Inr (Some cleaned_data)))))))"

text \<open>
  One categorical column in the fitted branch of \<open>encode_categorical_features\<close>:
  \<^verbatim>\<open>try: data[target] = encoder.transform(data[col])  except ValueError: data[target] = 0\<close>.
  A missing source column raises \<^verbatim>\<open>KeyError\<close>, which is not caught.
\<close>

definition transform_column ::
  "label_encoder \<Rightarrow> string \<Rightarrow> string \<Rightarrow> frame \<Rightarrow> py_error + frame" where
  "transform_column enc col target data =
     (case column col data of
        Inl e \<Rightarrow> Inl e
      | Inr y \<Rightarrow>
          (case transform enc y of
             Inr codes \<Rightarrow> Inr (set_column target (map (\<lambda>c. Num (of_int c)) codes) data)
           | Inl e \<Rightarrow>
               if e = ValueError then Inr (set_column_scalar target (Num 0) data)
               else Inl e))"

text \<open>
  One categorical column in the fitting branch:
  \<^verbatim>\<open>data[target] = encoder.fit_transform(data[col])\<close>, returning the fitted encoder too.
\<close>

definition fit_transform_column ::
  "label_encoder \<Rightarrow> string \<Rightarrow> string \<Rightarrow> frame \<Rightarrow> py_error + (frame \<times> label_encoder)" where
  "fit_transform_column enc col target data =
     (case column col data of
        Inl e \<Rightarrow> Inl e
      | Inr y \<Rightarrow>
          (case fit_transform enc y of
             Inl e \<Rightarrow> Inl e
           | Inr (codes, enc') \<Rightarrow>
               Inr (set_column target (map (\<lambda>c. Num (of_int c)) codes) data, enc')))"

text \<open>
  \<open>encode_categorical_features\<close>. It returns the encoded table, or the exception raised,
  together with the preprocessor as the call leaves it.
\<close>

definition encode_categorical_features ::
  "data_preprocessor \<Rightarrow> frame \<Rightarrow> (py_error + frame) \<times> data_preprocessor" where
  "encode_categorical_features self data =
     (if \<not> is_fitted self then
        (case fit_transform_column (crop_encoder self) ''Crop'' ''Crop_Encoded'' data of
           Inl e \<Rightarrow> (Inl e, self)
         | Inr (d1, crop_enc) \<Rightarrow>
             let s1 = self\<lparr>crop_encoder := crop_enc\<rparr> in
             (case fit_transform_column (state_encoder s1) ''State'' ''State_Encoded'' d1 of
                Inl e \<Rightarrow> (Inl e, s1)
              | Inr (d2, state_enc) \<Rightarrow>
                  let s2 = s1\<lparr>state_encoder := state_enc\<rparr> in
                  if ''Season'' \<in> set (columns d2) then
                    (case fit_transform_column (season_encoder s2) ''Season''
                            ''Season_Encoded'' d2 of
                       Inl e \<Rightarrow> (Inl e, s2)
                     | Inr (d3, season_enc) \<Rightarrow>
                         (Inr d3, s2\<lparr>season_encoder := season_enc, is_fitted := True\<rparr>))
                  else (Inr d2, s2\<lparr>is_fitted := True\<rparr>)))
      else
        (case transform_column (crop_encoder self) ''Crop'' ''Crop_Encoded'' data of
           Inl e \<Rightarrow> (Inl e, self)
         | Inr d1 \<Rightarrow>
             (case transform_column (state_encoder self) ''State'' ''State_Encoded'' d1 of
                Inl e \<Rightarrow> (Inl e, self)
              | Inr d2 \<Rightarrow>
                  if ''Season'' \<in> set (columns d2) then
                    (case transform_column (season_encoder self) ''Season''
                            ''Season_Encoded'' d2 of
                       Inl e \<Rightarrow> (Inl e, self)
                     | Inr d3 \<Rightarrow> (Inr d3, self))
                  else (Inr d2, self))))"

text \<open>
  \<open>prepare_features\<close>: the feature table \<open>X\<close>, the target column \<open>y\<close> and the names of the
  features; \<^verbatim>\<open>data['Yield']\<close> raises \<^verbatim>\<open>KeyError\<close> on a table without that column.
\<close>

definition prepare_features :: "frame \<Rightarrow> py_error + (frame \<times> cell list \<times> string list)" where
  "prepare_features data =
     (let feature_columns =
            [''Crop_Encoded'', ''State_Encoded'', ''Area'', ''Production'',
             ''Annual_Rainfall'', ''Fertilizer'', ''Pesticide''] @
            (if ''Season_Encoded'' \<in> set (columns data) then [''Season_Encoded''] else []);
          available_features = filter (\<lambda>col. col \<in> set (columns data)) feature_columns;
          X = data\<lparr>columns := available_features\<rparr>
      in case column ''Yield'' data of
           Inl e \<Rightarrow> Inl e
         | Inr y \<Rightarrow> Inr (X, y, available_features))"

text \<open>
  One label in \<open>encode_single_prediction\<close>:
  \<^verbatim>\<open>try: code = encoder.transform([label])[0]  except ValueError: code = 0\<close>.
\<close>

definition encode_label :: "label_encoder \<Rightarrow> string \<Rightarrow> py_error + int" where
  "encode_label enc l =
     (case transform enc [Str l] of
        Inr codes \<Rightarrow> (case codes of [] \<Rightarrow> Inl IndexError | c # cs \<Rightarrow> Inr c)
      | Inl e \<Rightarrow> if e = ValueError then Inr 0 else Inl e)"

text \<open>
  \<open>encode_single_prediction\<close>: the codes of crop, state and season. The season is optional;
  \<^verbatim>\<open>if season and ...\<close> skips \<open>None\<close> and the empty string.
\<close>

definition encode_single_prediction ::
  "data_preprocessor \<Rightarrow> string \<Rightarrow> string \<Rightarrow> string option \<Rightarrow> py_error + (int \<times> int \<times> int)" where
  "encode_single_prediction self crop state season =
     (case encode_label (crop_encoder self) crop of
        Inl e \<Rightarrow> Inl e
      | Inr crop_encoded \<Rightarrow>
          (case encode_label (state_encoder self) state of
             Inl e \<Rightarrow> Inl e
           | Inr state_encoded \<Rightarrow>
               (case season of
                  None \<Rightarrow> Inr (crop_encoded, state_encoded, 0)
                | Some l \<Rightarrow>
                    if l = [] then Inr (crop_encoded, state_encoded, 0)
                    else (case encode_label (season_encoder self) l of
                            Inl e \<Rightarrow> Inl e
                          | Inr season_encoded \<Rightarrow>
                              Inr (crop_encoded, state_encoded, season_encoded)))))"

section \<open>Crop yield prediction: the model bundle, the trainer and the predictor\<close>

text \<open>
  A fitted estimator is opaque: \<open>model_predict\<close> is its \<^verbatim>\<open>predict\<close>, from the rows of a feature
  table to one prediction per row or the exception it raises; an ensemble also has
  \<open>estimators\<close>, the \<^verbatim>\<open>predict\<close> of each of its members.
\<close>

record fitted_model =
  model_predict :: "cell list list \<Rightarrow> py_error + real list"
  estimators :: "(cell list list \<Rightarrow> py_error + real list) list option"

text \<open>The values an attribute of the trainer or the predictor, or an entry of a bundle, holds.\<close>

datatype pyobj =
    PyNone
  | Model fitted_model
  | Preprocessor data_preprocessor
  | Names "string list"

text \<open>
  The bundle is a dictionary; \<^verbatim>\<open>joblib.dump\<close> writes it to a file and \<^verbatim>\<open>joblib.load\<close> gives
  back the dictionary that was written. The file system maps a path to what the file
  holds.
\<close>

type_synonym model_data = "string \<rightharpoonup> pyobj"

type_synonym file_system = "string \<rightharpoonup> model_data"

text \<open>\<^verbatim>\<open>os.path.dirname\<close> on POSIX paths.\<close>

definition dirname :: "string \<Rightarrow> string" where
  "dirname p =
     (let head = rev (dropWhile (\<lambda>c. c \<noteq> CHR ''/'') (rev p))
      in if head \<noteq> [] \<and> \<not> list_all (\<lambda>c. c = CHR ''/'') head
         then rev (dropWhile (\<lambda>c. c = CHR ''/'') (rev head))
         else head)"

record model_trainer =
  t_preprocessor :: pyobj
  t_model :: pyobj
  t_feature_names :: pyobj

definition ModelTrainer :: model_trainer where
  "ModelTrainer = \<lparr>t_preprocessor = Preprocessor DataPreprocessor, t_model = PyNone,
     t_feature_names = PyNone\<rparr>"

text \<open>
  \<open>ModelTrainer.save_model\<close>. \<^verbatim>\<open>os.makedirs('')\<close> raises \<^verbatim>\<open>FileNotFoundError\<close>, which the
  handler answers with \<open>False\<close>; otherwise the directory is made and the file written.
\<close>

definition save_model :: "model_trainer \<Rightarrow> string \<Rightarrow> file_system \<Rightarrow> bool \<times> file_system" where
  "save_model self file_path fs =
     (case t_model self of
        PyNone \<Rightarrow> (False, fs)
      | _ \<Rightarrow>
          if dirname file_path = [] then (False, fs)
          else
            let model_data = [''model'' \<mapsto> t_model self,
                              ''preprocessor'' \<mapsto> t_preprocessor self,
                              ''feature_names'' \<mapsto> t_feature_names self]
            in (True, fs(file_path \<mapsto> model_data)))"

text \<open>\<open>ModelTrainer.load_model\<close>: the three entries are read and assigned one after the other.\<close>

definition trainer_load_model ::
  "model_trainer \<Rightarrow> string \<Rightarrow> file_system \<Rightarrow> bool \<times> model_trainer" where
  "trainer_load_model self file_path fs =
     (case fs file_path of
        None \<Rightarrow> (False, self)
      | Some model_data \<Rightarrow>
          (case model_data ''model'' of
             None \<Rightarrow> (False, self)
           | Some m \<Rightarrow>
               let s1 = self\<lparr>t_model := m\<rparr> in
               (case model_data ''preprocessor'' of
                  None \<Rightarrow> (False, s1)
                | Some p \<Rightarrow>
                    let s2 = s1\<lparr>t_preprocessor := p\<rparr> in
                    (case model_data ''feature_names'' of
                       None \<Rightarrow> (False, s2)
                     | Some n \<Rightarrow> (True, s2\<lparr>t_feature_names := n\<rparr>)))))"

record yield_predictor =
  model :: pyobj
  preprocessor :: pyobj
  feature_names :: pyobj
  is_loaded :: bool

definition YieldPredictor :: yield_predictor where
  "YieldPredictor = \<lparr>model = PyNone, preprocessor = PyNone, feature_names = PyNone,
     is_loaded = False\<rparr>"

text \<open>\<open>YieldPredictor.load_model\<close>.\<close>

definition load_model :: "yield_predictor \<Rightarrow> string \<Rightarrow> file_system \<Rightarrow> bool \<times> yield_predictor" where
  "load_model self model_path fs =
     (case fs model_path of
        None \<Rightarrow> (False, self)
      | Some model_data \<Rightarrow>
          (case model_data ''model'' of
             None \<Rightarrow> (False, self)
           | Some m \<Rightarrow>
               let s1 = self\<lparr>model := m\<rparr> in
               (case model_data ''preprocessor'' of
                  None \<Rightarrow> (False, s1)
                | Some p \<Rightarrow>
                    let s2 = s1\<lparr>preprocessor := p\<rparr> in
                    (case model_data ''feature_names'' of
                       None \<Rightarrow> (False, s2)
                     | Some n \<Rightarrow> (True, s2\<lparr>feature_names := n, is_loaded := True\<rparr>)))))"

text \<open>The rows of a feature table, each as the list of its cells in column order.\<close>

definition matrix :: "frame \<Rightarrow> cell list list" where
  "matrix X = map (\<lambda>r. map r (columns X)) (rows X)"

text \<open>
  The feature vector of a single request, as \<open>predict\<close> and \<open>predict_with_confidence\<close> build
  it: the seven fixed features, and the season code when the bundle was trained with it.
  \<^verbatim>\<open>pd.DataFrame(features_array, columns=self.feature_names)\<close> raises \<^verbatim>\<open>ValueError\<close> when
  the two lengths differ.
\<close>

definition feature_row ::
  "string list \<Rightarrow> int \<times> int \<times> int \<Rightarrow> real \<Rightarrow> real \<Rightarrow> real \<Rightarrow> real \<Rightarrow> real
     \<Rightarrow> py_error + cell list" where
  "feature_row names codes area production annual_rainfall fertilizer pesticide =
     (case codes of (crop_encoded, state_encoded, season_encoded) \<Rightarrow>
        let features = [Num (of_int crop_encoded), Num (of_int state_encoded), Num area,
                        Num production, Num annual_rainfall, Num fertilizer, Num pesticide] @
                       (if ''Season_Encoded'' \<in> set names
                        then [Num (of_int season_encoded)] else [])
        in if length features = length names then Inr features else Inl ValueError)"

text \<open>\<^verbatim>\<open>estimator.predict(feature_df)[0]\<close>.\<close>

definition predict_one ::
  "(cell list list \<Rightarrow> py_error + real list) \<Rightarrow> cell list \<Rightarrow> py_error + real" where
  "predict_one f features =
     (case f [features] of
        Inl e \<Rightarrow> Inl e
      | Inr ys \<Rightarrow> (case ys of [] \<Rightarrow> Inl IndexError | y # rest \<Rightarrow> Inr y))"

text \<open>
  \<open>YieldPredictor.predict\<close>: the prediction, or \<open>None\<close> when no model is loaded or an
  exception is caught.
\<close>

definition predict ::
  "yield_predictor \<Rightarrow> string \<Rightarrow> string \<Rightarrow> real \<Rightarrow> real \<Rightarrow> real \<Rightarrow> real \<Rightarrow> real
     \<Rightarrow> string option \<Rightarrow> real option" where
  "predict self crop state area production annual_rainfall fertilizer pesticide season =
     (if \<not> is_loaded self then None
      else
        (case (model self, preprocessor self, feature_names self) of
           (Model m, Preprocessor pp, Names names) \<Rightarrow>
             (case encode_single_prediction pp crop state season of
                Inl e \<Rightarrow> None
              | Inr codes \<Rightarrow>
                  (case feature_row names codes area production annual_rainfall
                          fertilizer pesticide of
                     Inl e \<Rightarrow> None
                   | Inr features \<Rightarrow>
                       (case predict_one (model_predict m) features of
                          Inl e \<Rightarrow> None
                        | Inr prediction \<Rightarrow> Some prediction)))
         | _ \<Rightarrow> None))"

text \<open>
  \<open>YieldPredictor.predict_batch\<close>, from the table read from the file: the table with the
  column \<open>Predicted_Yield\<close>, or \<open>None\<close>. The preprocessor of the bundle does the encoding
  and is returned as the call leaves it.
\<close>

definition predict_batch :: "yield_predictor \<Rightarrow> frame \<Rightarrow> frame option \<times> yield_predictor" where
  "predict_batch self data =
     (if \<not> is_loaded self then (None, self)
      else
        (case (model self, preprocessor self) of
           (Model m, Preprocessor pp) \<Rightarrow>
             (case encode_categorical_features pp data of
                (Inl e, pp') \<Rightarrow> (None, self\<lparr>preprocessor := Preprocessor pp'\<rparr>)
              | (Inr encoded_data, pp') \<Rightarrow>
                  let self' = self\<lparr>preprocessor := Preprocessor pp'\<rparr> in
                  (case prepare_features encoded_data of
                     Inl e \<Rightarrow> (None, self')
                   | Inr (X, y, names) \<Rightarrow>
                       (case model_predict m (matrix X) of
                          Inl e \<Rightarrow> (None, self')
                        | Inr predictions \<Rightarrow>
                            if length predictions = length (rows data)
                            then (Some (set_column ''Predicted_Yield''
                                          (map Num predictions) data), self')
                            else (None, self'))))
         | _ \<Rightarrow> (None, self)))"




definition exact_percentile :: "real list \<Rightarrow> real \<Rightarrow> real" where
  "exact_percentile xs q = linear_quantile (sort xs) (q / 100)"



text \<open>The dictionary \<open>predict_with_confidence\<close> returns; an entry it does not set is \<open>None\<close>.\<close>

record confidence =
  prediction :: "real option"
  std_dev :: "real option"
  lower_bound :: "real option"
  upper_bound :: "real option"
  all_predictions :: "real list option"


section \<open>Example data\<close>

text \<open>Example tables. A row is written as its list of named cells.\<close>

definition row_of :: "(string \<times> cell) list \<Rightarrow> string \<Rightarrow> cell" where
  "row_of cells col = (case map_of cells col of None \<Rightarrow> NaN | Some v \<Rightarrow> v)"

text \<open>
  A training table of five rows, without a \<open>Season\<close> column; the last row's area is far
  from the others. The batch table has a row with the crop \<open>Maize\<close>, which the training
  table does not have.
\<close>

definition table_columns :: "string list" where
  "table_columns = [''Crop'', ''State'', ''Area'', ''Production'', ''Annual_Rainfall'',
     ''Fertilizer'', ''Pesticide'', ''Yield'']"

definition table_row :: "string \<Rightarrow> string \<Rightarrow> real \<Rightarrow> string \<Rightarrow> cell" where
  "table_row crop state area =
     row_of [(''Crop'', Str crop), (''State'', Str state), (''Area'', Num area),
             (''Production'', Num 10), (''Annual_Rainfall'', Num 900),
             (''Fertilizer'', Num 50), (''Pesticide'', Num 5), (''Yield'', Num 2)]"

definition training_table :: frame where
  "training_table = \<lparr>columns = table_columns,
     rows = [table_row ''Rice'' ''Assam'' 1, table_row ''Wheat'' ''Bihar'' 2,
             table_row ''Rice'' ''Bihar'' 3, table_row ''Wheat'' ''Assam'' 4,
             table_row ''Rice'' ''Assam'' 100]\<rparr>"

text \<open>The preprocessor after it has encoded the training table.\<close>

definition fitted_preprocessor :: data_preprocessor where
  "fitted_preprocessor = snd (encode_categorical_features DataPreprocessor training_table)"

definition batch_table :: frame where
  "batch_table = \<lparr>columns = table_columns,
     rows = [table_row ''Wheat'' ''Bihar'' 2, table_row ''Maize'' ''Bihar'' 3]\<rparr>"

text \<open>A fitted model that predicts, for every row, the row's crop code.\<close>

fun first_feature :: "cell list \<Rightarrow> real" where
  "first_feature (Num x # cs) = x"
| "first_feature cs = 0"

definition crop_code_model :: fitted_model where
  "crop_code_model = \<lparr>model_predict = (\<lambda>X. Inr (map first_feature X)), estimators = None\<rparr>"

definition loaded_predictor :: yield_predictor where
  "loaded_predictor = \<lparr>model = Model crop_code_model,
     preprocessor = Preprocessor fitted_preprocessor,
     feature_names = Names [''Crop_Encoded'', ''State_Encoded'', ''Area'', ''Production'',
       ''Annual_Rainfall'', ''Fertilizer'', ''Pesticide''],
     is_loaded = True\<rparr>"

text \<open>Reading a column out of a result.\<close>

definition encoded_column :: "string \<Rightarrow> py_error + frame \<Rightarrow> py_error + cell list" where
  "encoded_column col result = (case result of Inl e \<Rightarrow> Inl e | Inr data \<Rightarrow> column col data)"

definition predicted_yield :: "frame option \<Rightarrow> cell list option" where
  "predicted_yield result =
     (case result of
        None \<Rightarrow> None
      | Some data \<Rightarrow> (case column ''Predicted_Yield'' data of Inl e \<Rightarrow> None | Inr ys \<Rightarrow> Some ys))"

text \<open>The training table without its last row.\<close>

definition cleaned_table :: frame where
  "cleaned_table = \<lparr>columns = table_columns,
     rows = [table_row ''Rice'' ''Assam'' 1, table_row ''Wheat'' ''Bihar'' 2,
             table_row ''Rice'' ''Bihar'' 3, table_row ''Wheat'' ''Assam'' 4]\<rparr>"

text \<open>A trainer that holds the fitted preprocessor and a model.\<close>

definition trained :: model_trainer where
  "trained = \<lparr>t_preprocessor = Preprocessor fitted_preprocessor,
     t_model = Model crop_code_model,
     t_feature_names = Names [''Crop_Encoded'', ''State_Encoded'', ''Area'', ''Production'',
       ''Annual_Rainfall'', ''Fertilizer'', ''Pesticide'']\<rparr>"




text \<open>A forest of 100 members, the default size: 99 predict 0 and one predicts 100.\<close>

definition skewed_values :: "real list" where
  "skewed_values = replicate 99 0 @ [100]"



section \<open>Properties of the marketplace\<close>

lemma find_map_same_key:
  assumes "\<And>r. P (f r) = P r"
  shows "find P (map f rs) = map_option f (find P rs)"
  using assms by (induction rs) simp_all

lemma find_Some_holds: "find P rs = Some r \<Longrightarrow> P r"
  by (induction rs) (auto split: if_splits)

lemma select_item_iid: "select_item item_id d = Some item \<Longrightarrow> iid item = item_id"
  unfolding select_item_def by (drule find_Some_holds) simp

lemma select_item_decrement:
  "select_item item_id (decrement_quantity quantity item_id d) =
     map_option (\<lambda>r. r\<lparr>quantity_available := quantity_available r - quantity\<rparr>)
       (select_item item_id d)"
proof -
  let ?f = "\<lambda>r. if iid r = item_id
                 then r\<lparr>quantity_available := quantity_available r - quantity\<rparr> else r"
  have "find (\<lambda>r. iid r = item_id) (map ?f (marketplace_items d)) =
          map_option ?f (find (\<lambda>r. iid r = item_id) (marketplace_items d))"
    by (rule find_map_same_key) simp
  then have step: "select_item item_id (decrement_quantity quantity item_id d) =
      map_option ?f (select_item item_id d)"
    by (simp add: select_item_def decrement_quantity_def)
  show ?thesis
  proof (cases "select_item item_id d")
    case None
    with step show ?thesis by simp
  next
    case (Some item)
    then have "iid item = item_id" by (rule select_item_iid)
    with step Some show ?thesis by simp
  qed
qed

lemma select_item_insert_purchase [simp]:
  "select_item item_id (insert_purchase t d) = select_item item_id d"
  by (simp add: select_item_def insert_purchase_def)

lemma transactions_decrement [simp]:
  "purchase_transactions (decrement_quantity quantity item_id d) = purchase_transactions d"
  by (simp add: decrement_quantity_def)

lemma purchase_item_accepts:
  assumes "select_item item_id d = Some item" and "quantity \<le> quantity_available item"
  shows "purchase_item (Some buyer) (Some quantity) item_id d =
           (PurchaseSuccessful,
            decrement_quantity quantity item_id
              (insert_purchase
                 \<lparr>t_item_id = item_id, t_buyer_id = buyer, t_seller_id = seller_id item,
                  t_quantity = quantity, t_total_amount = of_int quantity * price item,
                  t_delivery_address = None\<rparr> d))"
  using assms by (simp add: purchase_item_def)

lemma process_purchase_accepts:
  assumes "select_item item_id d = Some item" and "quantity \<le> quantity_available item"
  shows "process_purchase (Some buyer) (Some item_id) (Some quantity) address d =
           (PurchaseSuccessful,
            decrement_quantity quantity item_id
              (insert_purchase
                 \<lparr>t_item_id = item_id, t_buyer_id = buyer, t_seller_id = seller_id item,
                  t_quantity = quantity, t_total_amount = of_int quantity * price item,
                  t_delivery_address = address\<rparr> d))"
  using assms select_item_iid [OF assms(1)] by (simp add: process_purchase_def)

lemma stock_after_purchase:
  assumes "select_item item_id d = Some item"
  shows "map_option quantity_available
           (select_item item_id (decrement_quantity quantity item_id (insert_purchase t d))) =
         Some (quantity_available item - quantity)"
  using assms by (simp add: select_item_decrement)

lemma transactions_after_purchase [simp]:
  "purchase_transactions (insert_purchase t d) = purchase_transactions d @ [t]"
  by (simp add: insert_purchase_def)

text \<open>
  Claim C1. A logged-in buyer's purchase of a quantity that is at most the item's stock
  succeeds in both purchase handlers; afterwards the item's \<open>quantity_available\<close> is the
  old value minus the quantity, and the transaction table has grown by exactly one row,
  whose \<open>total_amount\<close> is quantity times the item's price.
\<close>

theorem purchase_sufficient_stock:
  assumes "select_item item_id d = Some item" and "quantity \<le> quantity_available item"
  shows "fst (purchase_item (Some buyer) (Some quantity) item_id d) = PurchaseSuccessful \<and>
         map_option quantity_available
           (select_item item_id (snd (purchase_item (Some buyer) (Some quantity) item_id d))) =
           Some (quantity_available item - quantity) \<and>
         purchase_transactions (snd (purchase_item (Some buyer) (Some quantity) item_id d)) =
           purchase_transactions d @
             [\<lparr>t_item_id = item_id, t_buyer_id = buyer, t_seller_id = seller_id item,
               t_quantity = quantity, t_total_amount = of_int quantity * price item,
               t_delivery_address = None\<rparr>] \<and>
         fst (process_purchase (Some buyer) (Some item_id) (Some quantity) address d) =
           PurchaseSuccessful \<and>
         map_option quantity_available
           (select_item item_id
              (snd (process_purchase (Some buyer) (Some item_id) (Some quantity) address d))) =
           Some (quantity_available item - quantity) \<and>
         purchase_transactions
           (snd (process_purchase (Some buyer) (Some item_id) (Some quantity) address d)) =
           purchase_transactions d @
             [\<lparr>t_item_id = item_id, t_buyer_id = buyer, t_seller_id = seller_id item,
               t_quantity = quantity, t_total_amount = of_int quantity * price item,
               t_delivery_address = address\<rparr>]"
  using assms
  by (simp add: purchase_item_accepts process_purchase_accepts stock_after_purchase
        transactions_after_purchase)

lemma example_select: "select_item 1 example_db = Some example_item"
  by (simp add: select_item_def example_db_def example_item_def)

theorem purchase_sufficient_stock_witness:
  "fst (purchase_item (Some 2) (Some 3) 1 example_db) = PurchaseSuccessful \<and>
   map_option quantity_available
     (select_item 1 (snd (purchase_item (Some 2) (Some 3) 1 example_db))) = Some 2 \<and>
   map t_total_amount
     (purchase_transactions (snd (purchase_item (Some 2) (Some 3) 1 example_db))) = [30]"
proof -
  have stock: "(3::int) \<le> quantity_available example_item"
    by (simp add: example_item_def)
  show ?thesis
    using purchase_sufficient_stock [OF example_select stock, of 2 None]
    by (simp add: example_item_def example_db_def)
qed

text \<open>
  Claim C2. A purchase of more than the item's stock is answered with the
  insufficient-quantity rejection by both handlers, and the database is returned as it
  was: the stock is unchanged and no transaction row is added.
\<close>

theorem purchase_insufficient_stock:
  assumes "select_item item_id d = Some item" and "quantity > quantity_available item"
  shows "purchase_item (Some buyer) (Some quantity) item_id d = (InsufficientQuantity, d) \<and>
         process_purchase (Some buyer) (Some item_id) (Some quantity) address d =
           (InsufficientQuantity, d)"
  using assms by (simp add: purchase_item_def process_purchase_def)

theorem purchase_insufficient_stock_witness:
  "purchase_item (Some 2) (Some 6) 1 example_db = (InsufficientQuantity, example_db) \<and>
   process_purchase (Some 2) (Some 1) (Some 6) None example_db =
     (InsufficientQuantity, example_db)"
proof -
  have stock: "(6::int) > quantity_available example_item"
    by (simp add: example_item_def)
  show ?thesis
    using purchase_insufficient_stock [OF example_select stock, of 2 None]
    by simp
qed


lemma inventory_ok_insert_purchase [simp]:
  "inventory_ok (insert_purchase t d) = inventory_ok d"
  by (simp add: inventory_ok_def insert_purchase_def)

lemma keys_unique_insert_purchase [simp]:
  "keys_unique (insert_purchase t d) = keys_unique d"
  by (simp add: keys_unique_def insert_purchase_def)

lemma inventory_ok_insert_item:
  "inventory_ok (insert_item s n de c p q u l i d) = (inventory_ok d \<and> 0 \<le> q)"
  by (simp add: inventory_ok_def insert_item_def)

lemma fold_max_upper: "x \<in> set xs \<Longrightarrow> x \<le> fold max xs (a::nat)"
proof (induction xs arbitrary: a)
  case Nil
  then show ?case by simp
next
  case (Cons y ys)
  have mono: "b \<le> fold max ys b" for b
    by (induction ys arbitrary: b) (auto intro: order_trans [OF max.cobounded2])
  from Cons show ?case
    by (auto intro: order_trans [OF max.cobounded1 mono])
qed

lemma next_id_fresh: "next_id d \<notin> iid ` set (marketplace_items d)"
proof
  assume "next_id d \<in> iid ` set (marketplace_items d)"
  then have "next_id d \<in> set (map iid (marketplace_items d))" by simp
  then have "next_id d \<le> fold max (map iid (marketplace_items d)) 0"
    by (rule fold_max_upper)
  then show False by (simp add: next_id_def)
qed

lemma keys_unique_insert_item:
  "keys_unique d \<Longrightarrow> keys_unique (insert_item s n de c p q u l i d)"
  using next_id_fresh [of d] by (simp add: keys_unique_def insert_item_def)

lemma inventory_ok_update_listing:
  "inventory_ok d \<Longrightarrow> 0 \<le> q \<Longrightarrow> inventory_ok (update_listing n de c p q u l i k usr d)"
  by (auto simp: inventory_ok_def update_listing_def list_all_iff)

lemma keys_unique_update_listing:
  "keys_unique (update_listing n de c p q u l i k usr d) = keys_unique d"
proof -
  have "map iid (marketplace_items (update_listing n de c p q u l i k usr d)) =
        map iid (marketplace_items d)"
    by (simp add: update_listing_def)
  then show ?thesis by (simp add: keys_unique_def)
qed

lemma keys_unique_decrement [simp]:
  "keys_unique (decrement_quantity quantity item_id d) = keys_unique d"
proof -
  have "map iid (marketplace_items (decrement_quantity quantity item_id d)) =
        map iid (marketplace_items d)"
    by (simp add: decrement_quantity_def)
  then show ?thesis by (simp add: keys_unique_def)
qed




lemma sell_item_preserves:
  assumes "inventory_ok d" and "keys_unique d" and "form_quantity_ok form"
  shows "inventory_ok (snd (sell_item session m form d)) \<and>
         keys_unique (snd (sell_item session m form d))"
  using assms
  by (auto simp: sell_item_def Let_def form_quantity_ok_def inventory_ok_insert_item
           keys_unique_insert_item split: option.splits http_method.splits)

lemma add_item_preserves:
  assumes "inventory_ok d" and "keys_unique d" and "form_quantity_ok form"
  shows "inventory_ok (snd (add_item session m form d)) \<and>
         keys_unique (snd (add_item session m form d))"
  using assms
  by (auto simp: add_item_def form_quantity_ok_def inventory_ok_insert_item
           keys_unique_insert_item split: option.splits http_method.splits)

lemma edit_listing_preserves:
  assumes "inventory_ok d" and "keys_unique d" and "form_quantity_ok form"
  shows "inventory_ok (snd (edit_listing session m k form d)) \<and>
         keys_unique (snd (edit_listing session m k form d))"
  using assms
  by (auto simp: edit_listing_def Let_def form_quantity_ok_def inventory_ok_update_listing
           keys_unique_update_listing split: option.splits http_method.splits)



















text \<open>
  Claim C10 as stated fails on an existing item whose stock is below the requested
  non-positive quantity: on the store holding a listing created with quantity \<open>-5\<close>, a
  purchase of \<open>-3\<close> is rejected by both handlers and nothing changes.
\<close>

theorem nonpositive_purchase_counterexample:
  "map_option quantity_available (select_item 1 negative_stock_db) = Some (- 5) \<and>
   purchase_item (Some 2) (Some (- 3)) 1 negative_stock_db =
     (InsufficientQuantity, negative_stock_db) \<and>
   process_purchase (Some 2) (Some 1) (Some (- 3)) None negative_stock_db =
     (InsufficientQuantity, negative_stock_db)"
proof -
  have db: "negative_stock_db =
      \<lparr>marketplace_items =
         [\<lparr>iid = 1, seller_id = 7, item_name = ''Rice'', description = ''Basmati'',
           category = ''Grain'', price = 10, quantity_available = - 5, unit_col = ''kg'',
           location = ''Pune'', image_url = None\<rparr>],
       purchase_transactions = []\<rparr>"
    by (simp add: negative_stock_db_def sell_item_def example_form_def empty_db_def
          category_mapping_def insert_item_def next_id_def)
  show ?thesis
    unfolding db by (simp add: select_item_def purchase_item_def process_purchase_def)
qed

text \<open>
  Claim C10, as amended. The sufficiency check compares the requested quantity with the
  stock and does not look at its sign. A purchase of a quantity that is zero or negative,
  against an existing item whose stock is at least that quantity (so against every item
  whose stock is not negative), succeeds in both handlers, appends one transaction row,
  and changes the stock by minus the quantity, which does not lower it.
\<close>

theorem nonpositive_purchase_accepted:
  assumes "select_item item_id d = Some item"
    and "quantity \<le> 0" and "quantity \<le> quantity_available item"
  shows "fst (purchase_item (Some buyer) (Some quantity) item_id d) = PurchaseSuccessful \<and>
         fst (process_purchase (Some buyer) (Some item_id) (Some quantity) address d) =
           PurchaseSuccessful \<and>
         length (purchase_transactions
                   (snd (purchase_item (Some buyer) (Some quantity) item_id d))) =
           Suc (length (purchase_transactions d)) \<and>
         length (purchase_transactions
                   (snd (process_purchase (Some buyer) (Some item_id) (Some quantity) address d))) =
           Suc (length (purchase_transactions d)) \<and>
         map_option quantity_available
           (select_item item_id (snd (purchase_item (Some buyer) (Some quantity) item_id d))) =
           Some (quantity_available item - quantity) \<and>
         map_option quantity_available
           (select_item item_id
              (snd (process_purchase (Some buyer) (Some item_id) (Some quantity) address d))) =
           Some (quantity_available item - quantity) \<and>
         quantity_available item \<le> quantity_available item - quantity"
  using assms
  by (simp add: purchase_item_accepts process_purchase_accepts stock_after_purchase)

theorem nonpositive_purchase_accepted_witness:
  "fst (purchase_item (Some 2) (Some (- 3)) 1 example_db) = PurchaseSuccessful \<and>
   length (purchase_transactions (snd (purchase_item (Some 2) (Some (- 3)) 1 example_db))) = 1 \<and>
   map_option quantity_available
     (select_item 1 (snd (purchase_item (Some 2) (Some (- 3)) 1 example_db))) = Some 8"
proof -
  have sel: "select_item 1 example_db = Some example_item"
    by (simp add: select_item_def example_db_def example_item_def)
  have neg: "(- 3::int) \<le> 0" by simp
  have le: "(- 3::int) \<le> quantity_available example_item"
    by (simp add: example_item_def)
  show ?thesis
    using nonpositive_purchase_accepted [OF sel neg le, of 2 None]
    by (simp add: example_item_def example_db_def)
qed

lemma purchase_item_in_two_steps:
  "purchase_item (Some user_id) (Some quantity) item_id d =
     (case purchase_check item_id quantity d of
        None \<Rightarrow> (InsufficientQuantity, d)
      | Some item \<Rightarrow>
          (PurchaseSuccessful, purchase_write user_id item_id quantity None item d))"
  by (simp add: purchase_item_def purchase_check_def purchase_write_def
           split: option.splits)

lemma process_purchase_in_two_steps:
  "process_purchase (Some user_id) (Some item_id) (Some quantity) address d =
     (case purchase_check item_id quantity d of
        None \<Rightarrow> (InsufficientQuantity, d)
      | Some item \<Rightarrow>
          (PurchaseSuccessful, purchase_write user_id item_id quantity address item d))"
  by (auto simp: process_purchase_def purchase_check_def purchase_write_def
           dest: select_item_iid split: option.splits)

lemma run_alone_is_purchase_item:
  "run [0, 0] [(r, Waiting)] d =
     ([(r, Answered (fst (purchase_item (Some (r_buyer r)) (Some (r_quantity r)) (r_item r) d)))],
      snd (purchase_item (Some (r_buyer r)) (Some (r_quantity r)) (r_item r) d))"
  by (simp add: purchase_item_in_two_steps split: option.splits)

text \<open>
  Claim C4 at a failing input. Two requests for 5 units meet an item with 5 in stock. When
  each runs to its end before the other starts, one succeeds, the other is rejected, and
  the stock is 0. When both read before either writes, both pass the check, both
  succeed, two transaction rows are written and the stock is \<open>-5\<close>.
\<close>

theorem simultaneous_purchases_oversell:
  "map snd (fst (run [0, 0, 1, 1] two_requests example_db)) =
     [Answered PurchaseSuccessful, Answered InsufficientQuantity] \<and>
   map_option quantity_available
     (select_item 1 (snd (run [0, 0, 1, 1] two_requests example_db))) = Some 0 \<and>
   length (purchase_transactions (snd (run [0, 0, 1, 1] two_requests example_db))) = 1 \<and>
   map snd (fst (run [0, 1, 0, 1] two_requests example_db)) =
     [Answered PurchaseSuccessful, Answered PurchaseSuccessful] \<and>
   map_option quantity_available
     (select_item 1 (snd (run [0, 1, 0, 1] two_requests example_db))) = Some (- 5) \<and>
   length (purchase_transactions (snd (run [0, 1, 0, 1] two_requests example_db))) = 2"
  by (simp add: two_requests_def example_db_def example_item_def purchase_check_def
        purchase_write_def select_item_def insert_purchase_def decrement_quantity_def)

section \<open>Properties of the yield-prediction code\<close>

lemma fitted_preprocessor_eq:
  "fitted_preprocessor =
     \<lparr>crop_encoder = \<lparr>classes = Some [Str ''Rice'', Str ''Wheat'']\<rparr>,
      state_encoder = \<lparr>classes = Some [Str ''Assam'', Str ''Bihar'']\<rparr>,
      season_encoder = \<lparr>classes = None\<rparr>, is_fitted = True\<rparr>"
  by (simp add: fitted_preprocessor_def encode_categorical_features_def DataPreprocessor_def
        LabelEncoder_def fit_transform_column_def column_def training_table_def
        table_columns_def table_row_def row_of_def fit_transform_def fit_def transform_def
        set_column_def Let_def)




lemma seen_after_fit:
  assumes "fit enc (map Str labels) = Inr enc'"
  shows "seen enc' l = (l \<in> set labels)"
proof -
  have texts: "List.map_filter label_text (map Str labels) = labels"
    by (induction labels) (simp_all add: List.map_filter_simps)
  have nums: "List.map_filter number (map Str labels) = []"
    by (induction labels) (simp_all add: List.map_filter_simps)
  have missing: "\<not> list_ex is_missing (map Str labels)"
    by (induction labels) simp_all
  from assms have "classes enc' = Some (map Str (sort (remdups labels)))"
    by (auto simp: fit_def texts nums missing)
  then show ?thesis by (auto simp: seen_def)
qed



lemma batch_crop_codes:
  "encoded_column ''Crop_Encoded''
     (fst (encode_categorical_features fitted_preprocessor batch_table)) =
   Inr [Num 0, Num 0]"
  by (simp add: fitted_preprocessor_eq encode_categorical_features_def transform_column_def
        column_def batch_table_def table_columns_def table_row_def row_of_def transform_def
        set_column_def set_column_scalar_def encoded_column_def numeral_eq_Suc)

lemma single_codes:
  "encode_single_prediction fitted_preprocessor ''Wheat'' ''Bihar'' None = Inr (1, 1, 0)"
  "encode_single_prediction fitted_preprocessor ''Maize'' ''Bihar'' None = Inr (0, 1, 0)"
  by (simp_all add: fitted_preprocessor_eq encode_single_prediction_def encode_label_def
        transform_def)

lemma batch_predictions:
  "predicted_yield (fst (predict_batch loaded_predictor batch_table)) = Some [Num 0, Num 0]"
  by (simp add: predict_batch_def loaded_predictor_def fitted_preprocessor_eq
        encode_categorical_features_def transform_column_def prepare_features_def
        column_def batch_table_def table_columns_def table_row_def row_of_def transform_def
        set_column_def set_column_scalar_def predicted_yield_def crop_code_model_def
        matrix_def Let_def numeral_eq_Suc)

lemma single_prediction:
  "predict loaded_predictor ''Wheat'' ''Bihar'' 2 10 900 50 5 None = Some 1"
  by (simp add: predict_def loaded_predictor_def single_codes feature_row_def
        predict_one_def crop_code_model_def)

text \<open>
  Claim C6 at a failing input. The preprocessor is fitted on the crops \<open>Rice\<close> and \<open>Wheat\<close>;
  the batch table has a \<open>Wheat\<close> row and a \<open>Maize\<close> row. \<^verbatim>\<open>transform\<close> raises on the whole
  column for the one unseen label, and the handler sets the whole column to 0: the
  \<open>Wheat\<close> row gets code 0 in the batch, where single-record encoding gives it code 1, and
  a model that predicts the crop code answers 0 for that row in the batch and 1 for the
  same record alone.
\<close>

theorem batch_encoding_differs_from_single:
  "encoded_column ''Crop_Encoded''
     (fst (encode_categorical_features fitted_preprocessor batch_table)) =
     Inr [Num 0, Num 0] \<and>
   encode_single_prediction fitted_preprocessor ''Wheat'' ''Bihar'' None = Inr (1, 1, 0) \<and>
   encode_single_prediction fitted_preprocessor ''Maize'' ''Bihar'' None = Inr (0, 1, 0) \<and>
   predicted_yield (fst (predict_batch loaded_predictor batch_table)) =
     Some [Num 0, Num 0] \<and>
   predict loaded_predictor ''Wheat'' ''Bihar'' 2 10 900 50 5 None = Some 1"
  by (simp add: batch_crop_codes single_codes batch_predictions single_prediction)

lemma iqr_filter_rows:
  "iqr_filter col data = Inr filtered \<Longrightarrow> length (rows filtered) \<le> length (rows data)"
  by (auto simp: iqr_filter_def split: sum.splits)

lemma remove_outliers_rows:
  "remove_outliers cols data = Inr cleaned \<Longrightarrow> length (rows cleaned) \<le> length (rows data)"
proof (induction cols arbitrary: data)
  case Nil
  then show ?case by simp
next
  case (Cons col cols)
  show ?case
  proof (cases "col \<in> set (columns data)")
    case False
    with Cons show ?thesis by simp
  next
    case True
    with Cons.prems obtain filtered where
      f: "iqr_filter col data = Inr filtered" and r: "remove_outliers cols filtered = Inr cleaned"
      by (auto split: sum.splits)
    from r have "length (rows cleaned) \<le> length (rows filtered)" by (rule Cons.IH)
    also from f have "\<dots> \<le> length (rows data)" by (rule iqr_filter_rows)
    finally show ?thesis .
  qed
qed

lemma dropna_rows:
  "dropna cols data = Inr kept \<Longrightarrow> length (rows kept) \<le> length (rows data)"
  by (auto simp: dropna_def split: if_splits)

lemma fillna_rows [simp]: "length (rows (fillna col v data)) = length (rows data)"
  by (simp add: fillna_def)

lemma fill_median_rows:
  "fill_median col data = Inr filled \<Longrightarrow> length (rows filled) = length (rows data)"
  by (auto simp: fill_median_def split: if_splits sum.splits)

lemma clean_data_rows:
  assumes "clean_data (Some data) = Inr (Some cleaned)"
  shows "length (rows cleaned) \<le> length (rows data)"
proof -
  from assms obtain d1 d2 d3 d4 where
    d1: "dropna critical_columns data = Inr d1" and
    d2: "fill_median ''Annual_Rainfall'' d1 = Inr d2" and
    d3: "fill_median ''Fertilizer'' d2 = Inr d3" and
    d4: "fill_median ''Pesticide'' d3 = Inr d4" and
    out: "remove_outliers numerical_cols
            (if ''Season'' \<in> set (columns d4)
             then fillna ''Season'' (Str ''Unknown'') d4 else d4) = Inr cleaned"
    by (auto simp: clean_data_def Let_def split: sum.splits)
  from out have "length (rows cleaned) \<le> length (rows d4)"
    by (auto dest!: remove_outliers_rows split: if_splits)
  also have "\<dots> = length (rows d1)"
    using d2 d3 d4 by (simp add: fill_median_rows)
  also have "\<dots> \<le> length (rows data)"
    using d1 by (rule dropna_rows)
  finally show ?thesis .
qed

text \<open>
  Claim C9. One per-column IQR filter never returns more rows than it was given; neither
  does the loop over the numeric columns, nor \<open>clean_data\<close> as a whole.
\<close>

theorem outlier_removal_monotonic:
  "(iqr_filter col data = Inr filtered \<longrightarrow> length (rows filtered) \<le> length (rows data)) \<and>
   (remove_outliers cols data = Inr trimmed \<longrightarrow> length (rows trimmed) \<le> length (rows data)) \<and>
   (clean_data (Some data) = Inr (Some cleaned) \<longrightarrow>
      length (rows cleaned) \<le> length (rows data))"
  by (simp add: iqr_filter_rows remove_outliers_rows clean_data_rows)

lemma sort5: "sort [1, 2, 3, 4, 100 :: real] = [1, 2, 3, 4, 100]"
  by simp

lemma area_filter: "iqr_filter ''Area'' training_table = Inr cleaned_table"
  by (simp add: iqr_filter_def training_table_def cleaned_table_def table_row_def row_of_def
        numbers_def List.map_filter_simps iqr_bounds_def quantile_def linear_quantile_def
        within_bounds_def Let_def)

lemmas table_defs = training_table_def cleaned_table_def table_columns_def table_row_def
  row_of_def

lemmas stat_defs = numbers_def iqr_bounds_def quantile_def
  linear_quantile_def within_bounds_def median_def Let_def

lemma dropna_training_table: "dropna critical_columns training_table = Inr training_table"
  by (simp add: dropna_def critical_columns_def table_defs)

lemma fill_median_training_table:
  "fill_median ''Annual_Rainfall'' training_table = Inr training_table"
  "fill_median ''Fertilizer'' training_table = Inr training_table"
  "fill_median ''Pesticide'' training_table = Inr training_table"
  by (simp_all add: fill_median_def fillna_def table_defs stat_defs)

lemma constant_filter:
  "iqr_filter ''Production'' cleaned_table = Inr cleaned_table"
  "iqr_filter ''Annual_Rainfall'' cleaned_table = Inr cleaned_table"
  "iqr_filter ''Fertilizer'' cleaned_table = Inr cleaned_table"
  "iqr_filter ''Pesticide'' cleaned_table = Inr cleaned_table"
  "iqr_filter ''Yield'' cleaned_table = Inr cleaned_table"
  by (simp_all add: iqr_filter_def table_defs stat_defs)

lemma remove_outliers_training_table:
  "remove_outliers numerical_cols training_table = Inr cleaned_table"
proof -
  have cols: "columns training_table = table_columns" "columns cleaned_table = table_columns"
    by (simp_all add: training_table_def cleaned_table_def)
  show ?thesis
    by (simp add: numerical_cols_def cols table_columns_def area_filter constant_filter)
qed

lemma clean_training_table: "clean_data (Some training_table) = Inr (Some cleaned_table)"
proof -
  have "''Season'' \<notin> set (columns training_table)"
    by (simp add: table_defs)
  then show ?thesis
    by (simp add: clean_data_def dropna_training_table fill_median_training_table
          remove_outliers_training_table)
qed

theorem outlier_removal_monotonic_witness:
  "iqr_filter ''Area'' training_table = Inr cleaned_table \<and>
   remove_outliers numerical_cols training_table = Inr cleaned_table \<and>
   clean_data (Some training_table) = Inr (Some cleaned_table) \<and>
   length (rows cleaned_table) \<le> length (rows training_table) \<and>
   length (rows cleaned_table) = 4 \<and> length (rows training_table) = 5"
  using outlier_removal_monotonic [of "''Area''" training_table cleaned_table numerical_cols
          cleaned_table cleaned_table]
    area_filter remove_outliers_training_table clean_training_table
  by (simp add: training_table_def cleaned_table_def)

lemma save_model_written:
  assumes "save_model self file_path fs = (True, fs')"
  shows "fs' file_path = Some [''model'' \<mapsto> t_model self,
                               ''preprocessor'' \<mapsto> t_preprocessor self,
                               ''feature_names'' \<mapsto> t_feature_names self]"
  using assms by (auto simp: save_model_def Let_def split: pyobj.splits if_splits)

text \<open>
  Claim C8. After \<open>save_model\<close> has succeeded, loading from the same path succeeds, in the
  trainer and in the predictor, and sets the model, the preprocessor and the feature
  names to those of the trainer that saved.
\<close>

theorem save_load_round_trip:
  assumes "save_model self file_path fs = (True, fs')"
  shows "trainer_load_model other file_path fs' =
           (True, other\<lparr>t_model := t_model self, t_preprocessor := t_preprocessor self,
                        t_feature_names := t_feature_names self\<rparr>) \<and>
         load_model predictor file_path fs' =
           (True, predictor\<lparr>model := t_model self, preprocessor := t_preprocessor self,
                            feature_names := t_feature_names self, is_loaded := True\<rparr>)"
  using save_model_written [OF assms]
  by (simp add: trainer_load_model_def load_model_def)

lemma dirname_example: "dirname ''models/saved_models/yield_model.pkl'' = ''models/saved_models''"
  by (simp add: dirname_def)

theorem save_load_round_trip_witness:
  "fst (save_model trained ''models/saved_models/yield_model.pkl'' Map.empty) = True \<and>
   load_model YieldPredictor ''models/saved_models/yield_model.pkl''
       (snd (save_model trained ''models/saved_models/yield_model.pkl'' Map.empty)) =
     (True, loaded_predictor) \<and>
   fst (trainer_load_model ModelTrainer ''models/saved_models/yield_model.pkl''
       (snd (save_model trained ''models/saved_models/yield_model.pkl'' Map.empty))) = True"
proof -
  have saved: "save_model trained ''models/saved_models/yield_model.pkl'' Map.empty =
      (True, snd (save_model trained ''models/saved_models/yield_model.pkl'' Map.empty))"
    by (simp add: save_model_def trained_def dirname_example)
  show ?thesis
    using save_load_round_trip [OF saved, of ModelTrainer YieldPredictor]
    by (simp add: save_model_def trained_def dirname_example YieldPredictor_def
          loaded_predictor_def)
qed

lemma save_model_bare_name: "save_model trained ''yield_model.pkl'' fs = (False, fs)"
  by (simp add: save_model_def trained_def dirname_def)





lemma skewed_lower: "exact_percentile skewed_values 2.5 = 0"
  unfolding exact_percentile_def skewed_values_def by code_simp




end
